theory Spec2Isabelle
  imports Main
begin

section \<open>JavaScript values read by the classifiers\<close>

text \<open>
  \<^verbatim>\<open>asErrorWithCode\<close> casts its argument to \<^verbatim>\<open>any\<close> and tests \<^verbatim>\<open>e.code\<close> for
  truthiness, so the \<^verbatim>\<open>code\<close> property of an error is an arbitrary JavaScript value.
  Numbers are restricted to the integers and NaN; objects are known by their address.
\<close>

datatype js_value =
    JUndefined
  | JNull
  | JBool bool
  | JNumber int
  | JNaN
  | JString string
  | JObject nat

text \<open>ToBoolean of ECMAScript: what \<^verbatim>\<open>if (v)\<close> and \<^verbatim>\<open>!v\<close> test.\<close>

fun truthy :: "js_value \<Rightarrow> bool" where
  "truthy JUndefined = False"
| "truthy JNull = False"
| "truthy (JBool b) = b"
| "truthy (JNumber n) = (n \<noteq> 0)"
| "truthy JNaN = False"
| "truthy (JString s) = (s \<noteq> [])"
| "truthy (JObject a) = True"

section \<open>Errors\<close>

text \<open>
  dugite's \<^verbatim>\<open>GitError\<close> (imported as \<^verbatim>\<open>DugiteError\<close>) is a numeric TypeScript enum; a
  member is known here by its number.
\<close>

type_synonym DugiteError = nat

text \<open>
  The result of a git invocation, of which the handlers read \<^verbatim>\<open>gitError\<close> only
  (\<^verbatim>\<open>DugiteError | null\<close>, \<open>None\<close> for \<^verbatim>\<open>null\<close>).
\<close>

record IGitResult =
  exitCode :: int
  gitError :: "DugiteError option"

text \<open>
  The metadata of an \<^verbatim>\<open>ErrorWithMetadata\<close>; \<^verbatim>\<open>backgroundTask\<close> is an optional boolean
  (\<open>None\<close> when the flag is absent).
\<close>

record IErrorMetadata =
  backgroundTask :: "bool option"

text \<open>
  An \<^verbatim>\<open>Error\<close> object: an instance of \<^verbatim>\<open>ErrorWithMetadata\<close> (declared in
  \<^verbatim>\<open>../error-with-metadata\<close>: it wraps an underlying error with metadata), an instance of
  the application's \<^verbatim>\<open>GitError\<close> (declared in \<^verbatim>\<open>../git/core\<close>: it carries the result of
  the git invocation), or any other error. Every object has an address
  (\<open>ref\<close>), so that two errors are equal only if they are the same object, a message, and
  whatever \<^verbatim>\<open>code\<close> property its producer gave it (\<open>JUndefined\<close> when it has none).
\<close>

datatype Error =
    PlainError (ref: nat) (message: string) (code: js_value)
  | ErrorWithMetadata (ref: nat) (message: string) (code: js_value)
      (underlyingError: Error) (metadata: IErrorMetadata)
  | GitError (ref: nat) (message: string) (code: js_value) (result: IGitResult)

section \<open>Classifiers\<close>

text \<open>The two \<^verbatim>\<open>instanceof\<close> tests: the class an error object was constructed by.\<close>

fun instanceof_ErrorWithMetadata :: "Error \<Rightarrow> bool" where
  "instanceof_ErrorWithMetadata (ErrorWithMetadata r m c inner md) = True"
| "instanceof_ErrorWithMetadata (PlainError r m c) = False"
| "instanceof_ErrorWithMetadata (GitError r m c res) = False"

fun instanceof_GitError :: "Error \<Rightarrow> bool" where
  "instanceof_GitError (GitError r m c res) = True"
| "instanceof_GitError (PlainError r m c) = False"
| "instanceof_GitError (ErrorWithMetadata r m c inner md) = False"

text \<open>
  \<^verbatim>\<open>function asErrorWithCode(error: Error): IErrorWithCode | null {
    const e = error as any
    if (e.code) { return e } else { return null }
  }\<close>
\<close>

definition asErrorWithCode :: "Error \<Rightarrow> Error option" where
  "asErrorWithCode error = (let e = error in if truthy (code e) then Some e else None)"

text \<open>
  \<^verbatim>\<open>function asErrorWithMetadata(error: Error): ErrorWithMetadata | null {
    if (error instanceof ErrorWithMetadata) { return error } else { return null }
  }\<close>
\<close>

definition asErrorWithMetadata :: "Error \<Rightarrow> Error option" where
  "asErrorWithMetadata error =
     (if instanceof_ErrorWithMetadata error then Some error else None)"

text \<open>
  \<^verbatim>\<open>function asGitError(error: Error): GitError | null {
    if (error instanceof GitError) { return error } else { return null }
  }\<close>
\<close>

definition asGitError :: "Error \<Rightarrow> Error option" where
  "asGitError error = (if instanceof_GitError error then Some error else None)"

section \<open>Application state, store and dispatcher\<close>

record Repository =
  id :: nat
  path :: string
  missing :: bool

record CloningRepository =
  cloning_id :: nat
  cloning_path :: string

datatype SelectionType = Repository | CloningRepository | MissingRepository

text \<open>
  The selection is a union discriminated by \<^verbatim>\<open>type\<close>; its \<^verbatim>\<open>repository\<close> is a
  \<^verbatim>\<open>Repository\<close> for the kinds \<^verbatim>\<open>Repository\<close> and \<^verbatim>\<open>MissingRepository\<close> and a
  \<^verbatim>\<open>CloningRepository\<close> otherwise.
\<close>

datatype PossibleSelections =
    IRepositorySelection (repository: Repository)
  | ICloningRepositorySelection (cloning: CloningRepository)
  | IMissingRepositorySelection (repository: Repository)

fun type :: "PossibleSelections \<Rightarrow> SelectionType" where
  "type (IRepositorySelection r) = Repository"
| "type (ICloningRepositorySelection c) = CloningRepository"
| "type (IMissingRepositorySelection r) = MissingRepository"

record IAppState =
  selectedState :: "PossibleSelections option"

text \<open>
  The store and the dispatcher are declared in \<^verbatim>\<open>./index\<close>; the handlers use them through
  three methods only. They are parameters here: \<open>'w\<close> is the state of everything outside
  this module, \<^verbatim>\<open>getState\<close> reads it, and an awaited dispatcher call transforms it. As
  the specification requires of both capabilities, a call settles and does not throw.
\<close>

record 'w AppStore =
  getState :: "'w \<Rightarrow> IAppState"

record 'w Dispatcher =
  presentError :: "Error \<Rightarrow> 'w \<Rightarrow> 'w"
  updateRepositoryMissing :: "Repository \<Rightarrow> bool \<Rightarrow> 'w \<Rightarrow> 'w"

text \<open>
  What the module imports from dugite and from \<^verbatim>\<open>../git/authentication\<close>, and the global
  console: the enum member \<^verbatim>\<open>DugiteError.NotAGitRepository\<close>, the string constant
  \<^verbatim>\<open>RepositoryDoesNotExistErrorCode\<close>, the members of the set \<^verbatim>\<open>AuthenticationErrors\<close>,
  and the effect of \<^verbatim>\<open>console.log\<close> on a dugite error.
\<close>

record 'w Dependencies =
  NotAGitRepository :: DugiteError
  RepositoryDoesNotExistErrorCode :: string
  AuthenticationErrors :: "DugiteError list"
  console_log :: "DugiteError \<Rightarrow> 'w \<Rightarrow> 'w"

text \<open>
  An \<^verbatim>\<open>ErrorHandler\<close> is an async function of the error and the dispatcher; its promise
  resolves to an error (\<open>Some\<close>, propagate) or to \<^verbatim>\<open>null\<close> (\<open>None\<close>, resolved). The model
  returns that value with the state the awaited calls leave behind.
\<close>

type_synonym 'w ErrorHandler = "Error \<Rightarrow> 'w Dispatcher \<Rightarrow> 'w \<Rightarrow> Error option \<times> 'w"

section \<open>Handlers\<close>

text \<open>
  \<^verbatim>\<open>export async function defaultErrorHandler(error, dispatcher) {
    await dispatcher.presentError(error)
    return null
  }\<close>
\<close>

definition defaultErrorHandler :: "'w ErrorHandler" where
  "defaultErrorHandler error dispatcher w =
     (let w' = presentError dispatcher error w in (None, w'))"

text \<open>
  \<^verbatim>\<open>createMissingRepositoryHandler(appStore)\<close> returns the handler below. The value of
  \<^verbatim>\<open>missing\<close> is only tested for truthiness, which is that of the disjunction of the
  two guarded comparisons. A local constant whose name is that of a field read in the
  same function carries a prime.
\<close>

definition createMissingRepositoryHandler ::
  "'w Dependencies \<Rightarrow> 'w AppStore \<Rightarrow> 'w ErrorHandler" where
  "createMissingRepositoryHandler deps appStore error dispatcher w =
     (let appState = getState appStore w in
      case selectedState appState of
        None \<Rightarrow> (Some error, w)
      | Some selectedState' \<Rightarrow>
          if type selectedState' \<noteq> MissingRepository \<and> type selectedState' \<noteq> Repository
          then (Some error, w)
          else
            let repository' = repository selectedState' in
            if missing repository' then (None, w)
            else
              let errorWithCode = asErrorWithCode error;
                  gitError' = asGitError error;
                  missing' =
                    ((case gitError' of
                        None \<Rightarrow> False
                      | Some g \<Rightarrow> gitError (result g) = Some (NotAGitRepository deps))
                     \<or>
                     (case errorWithCode of
                        None \<Rightarrow> False
                      | Some e \<Rightarrow> code e = JString (RepositoryDoesNotExistErrorCode deps)))
              in if missing'
                 then
                   let w' = updateRepositoryMissing dispatcher (repository selectedState') True w
                   in (None, w')
                 else (Some error, w))"

text \<open>
  \<^verbatim>\<open>export async function backgroundTaskHandler(error, dispatcher) {
    const e = asErrorWithMetadata(error)
    if (!e) { return error }
    const metadata = e.metadata
    if (metadata.backgroundTask) { return null } else { return error }
  }\<close>
\<close>

definition backgroundTaskHandler :: "'w ErrorHandler" where
  "backgroundTaskHandler error dispatcher w =
     (case asErrorWithMetadata error of
        None \<Rightarrow> (Some error, w)
      | Some e \<Rightarrow>
          let metadata' = metadata e in
          if backgroundTask metadata' = Some True then (None, w) else (Some error, w))"

text \<open>
  \<^verbatim>\<open>gitAuthenticationErrorHandler\<close>: \<^verbatim>\<open>!dugiteError\<close> holds for \<^verbatim>\<open>null\<close> and for the
  enum member numbered 0. The \<^verbatim>\<open>debugger\<close> statement after \<^verbatim>\<open>console.log\<close> has no effect
  on the program's state.
\<close>

definition gitAuthenticationErrorHandler :: "'w Dependencies \<Rightarrow> 'w ErrorHandler" where
  "gitAuthenticationErrorHandler deps error dispatcher w =
     (case asGitError error of
        None \<Rightarrow> (Some error, w)
      | Some gitError' \<Rightarrow>
          (case gitError (result gitError') of
             None \<Rightarrow> (Some error, w)
           | Some dugiteError \<Rightarrow>
               if dugiteError = 0 then (Some error, w)
               else if dugiteError \<notin> set (AuthenticationErrors deps) then (Some error, w)
               else
                 let w' = console_log deps dugiteError w
                 in (Some error, w')))"

section \<open>The conditions the specification names\<close>

text \<open>
  An error qualifies as "resource now missing" when it is a \<^verbatim>\<open>GitError\<close> whose result
  carries the enum member \<^verbatim>\<open>NotAGitRepository\<close>, or when its code equals
  \<^verbatim>\<open>RepositoryDoesNotExistErrorCode\<close>. This follows the specification's words, to be
  compared with what the handler computes.
\<close>

definition qualifies_as_missing :: "'w Dependencies \<Rightarrow> Error \<Rightarrow> bool" where
  "qualifies_as_missing deps error =
     ((instanceof_GitError error \<and> gitError (result error) = Some (NotAGitRepository deps))
      \<or> code error = JString (RepositoryDoesNotExistErrorCode deps))"

text \<open>
  The specification's coded-error shape: the error exposes a non-empty string
  \<^verbatim>\<open>code\<close> field.
\<close>

definition exposes_nonempty_string_code :: "Error \<Rightarrow> bool" where
  "exposes_nonempty_string_code error =
     (case code error of JString s \<Rightarrow> s \<noteq> [] | _ \<Rightarrow> False)"

text \<open>
  The shape \<^verbatim>\<open>IErrorWithCode\<close> that \<^verbatim>\<open>asErrorWithCode\<close> declares as its result:
  \<^verbatim>\<open>readonly code: string\<close>.
\<close>

definition is_IErrorWithCode :: "Error \<Rightarrow> bool" where
  "is_IErrorWithCode error = (case code error of JString s \<Rightarrow> True | _ \<Rightarrow> False)"

section \<open>A dispatcher that records its calls\<close>

text \<open>
  For concrete runs the outside world is the sequence of calls made so far, in order: the
  dispatcher and the console append to it, and the store holds a fixed state.
\<close>

datatype call =
    PresentError Error
  | UpdateRepositoryMissing Repository bool
  | ConsoleLog DugiteError

definition recording_dispatcher :: "call list Dispatcher" where
  "recording_dispatcher =
     \<lparr>presentError = (\<lambda>e cs. cs @ [PresentError e]),
      updateRepositoryMissing = (\<lambda>r b cs. cs @ [UpdateRepositoryMissing r b])\<rparr>"

definition store_holding :: "PossibleSelections option \<Rightarrow> call list AppStore" where
  "store_holding sel = \<lparr>getState = (\<lambda>cs. \<lparr>selectedState = sel\<rparr>)\<rparr>"

text \<open>
  Sample dependencies: dugite's string constant, and a numbering of the enum members in
  which \<^verbatim>\<open>NotAGitRepository\<close> is 27 and the four authentication errors are 1, 3, 8 and 9.
\<close>

definition sample_dependencies :: "call list Dependencies" where
  "sample_dependencies =
     \<lparr>NotAGitRepository = 27,
      RepositoryDoesNotExistErrorCode = ''repository-does-not-exist-error'',
      AuthenticationErrors = [3, 1, 8, 9],
      console_log = (\<lambda>d cs. cs @ [ConsoleLog d])\<rparr>"

section \<open>The classifiers on arbitrary error objects\<close>

text \<open>
  An expression of JavaScript completes normally with a value, or abruptly by throwing one.
\<close>

datatype 'a completion = Normal 'a | Throw js_value

text \<open>
  The read \<^verbatim>\<open>e.code\<close> in \<^verbatim>\<open>asErrorWithCode\<close> is a property read on an \<^verbatim>\<open>any\<close>. When
  \<^verbatim>\<open>code\<close> is absent or a data property the read yields its value and does nothing else;
  these are the errors of type \<open>Error\<close>, on which the handlers above are modelled. When
  \<^verbatim>\<open>code\<close> is an accessor property the read calls its getter, which returns a value or
  throws, and may change the state \<open>'w\<close> outside this module; the \<open>code\<close> field of the
  \<open>Error\<close> is then not read. Error objects are ordinary objects, so that \<^verbatim>\<open>instanceof\<close>
  only inspects the class of the object.
\<close>

datatype 'w error_object =
    DataCode Error
  | AccessorCode Error "'w \<Rightarrow> js_value completion \<times> 'w"

fun the_error :: "'w error_object \<Rightarrow> Error" where
  "the_error (DataCode e) = e"
| "the_error (AccessorCode e getter) = e"

fun get_code :: "'w error_object \<Rightarrow> 'w \<Rightarrow> js_value completion \<times> 'w" where
  "get_code (DataCode e) w = (Normal (code e), w)"
| "get_code (AccessorCode e getter) w = getter w"

text \<open>
  The three classifiers as they run on such an object: each call completes with the
  classifier's result or throws, and leaves a state.
  \<^verbatim>\<open>function asErrorWithCode(error: Error): IErrorWithCode | null {
    const e = error as any
    if (e.code) { return e } else { return null }
  }\<close>
\<close>

definition asErrorWithCode_js ::
  "'w error_object \<Rightarrow> 'w \<Rightarrow> 'w error_object option completion \<times> 'w" where
  "asErrorWithCode_js error w =
     (let e = error in
      case get_code e w of
        (Throw x, w') \<Rightarrow> (Throw x, w')
      | (Normal v, w') \<Rightarrow> if truthy v then (Normal (Some e), w') else (Normal None, w'))"

text \<open>
  \<^verbatim>\<open>function asErrorWithMetadata(error: Error): ErrorWithMetadata | null {
    if (error instanceof ErrorWithMetadata) { return error } else { return null }
  }\<close>
\<close>

definition asErrorWithMetadata_js ::
  "'w error_object \<Rightarrow> 'w \<Rightarrow> 'w error_object option completion \<times> 'w" where
  "asErrorWithMetadata_js error w =
     (if instanceof_ErrorWithMetadata (the_error error) then (Normal (Some error), w)
      else (Normal None, w))"

text \<open>
  \<^verbatim>\<open>function asGitError(error: Error): GitError | null {
    if (error instanceof GitError) { return error } else { return null }
  }\<close>
\<close>

definition asGitError_js ::
  "'w error_object \<Rightarrow> 'w \<Rightarrow> 'w error_object option completion \<times> 'w" where
  "asGitError_js error w =
     (if instanceof_GitError (the_error error) then (Normal (Some error), w)
      else (Normal None, w))"

section \<open>Auxiliary facts\<close>

lemma underlyingError_smaller:
  "instanceof_ErrorWithMetadata error \<Longrightarrow> size (underlyingError error) < size error"
  by (cases error) simp_all

lemma tracked_selection_cases:
  "type sel = Repository \<or> type sel = MissingRepository \<Longrightarrow>
     \<not> (type sel \<noteq> MissingRepository \<and> type sel \<noteq> Repository)"
  by auto

text \<open>What the handler's local \<^verbatim>\<open>missing\<close> amounts to, with the classifiers unfolded.\<close>

lemma handler_missing_value:
  "((case asGitError error of None \<Rightarrow> False
      | Some g \<Rightarrow> gitError (result g) = Some (NotAGitRepository deps))
    \<or> (case asErrorWithCode error of None \<Rightarrow> False
      | Some e \<Rightarrow> code e = JString (RepositoryDoesNotExistErrorCode deps)))
   = ((instanceof_GitError error \<and> gitError (result error) = Some (NotAGitRepository deps))
      \<or> (truthy (code error) \<and> code error = JString (RepositoryDoesNotExistErrorCode deps)))"
  by (simp add: asGitError_def asErrorWithCode_def)

lemma qualifies_imp_handler_missing:
  assumes "RepositoryDoesNotExistErrorCode deps \<noteq> []" and "qualifies_as_missing deps error"
  shows "(instanceof_GitError error \<and> gitError (result error) = Some (NotAGitRepository deps))
      \<or> (truthy (code error) \<and> code error = JString (RepositoryDoesNotExistErrorCode deps))"
  using assms by (auto simp: qualifies_as_missing_def)

lemma handler_missing_imp_qualifies:
  assumes "(instanceof_GitError error \<and> gitError (result error) = Some (NotAGitRepository deps))
      \<or> (truthy (code error) \<and> code error = JString (RepositoryDoesNotExistErrorCode deps))"
  shows "qualifies_as_missing deps error"
  using assms by (auto simp: qualifies_as_missing_def)

lemma createMissingRepositoryHandler_result:
  "fst (createMissingRepositoryHandler deps appStore error dispatcher w) = None
   \<or> fst (createMissingRepositoryHandler deps appStore error dispatcher w) = Some error"
  by (simp add: createMissingRepositoryHandler_def Let_def split: option.split)

lemma backgroundTaskHandler_result:
  "fst (backgroundTaskHandler error dispatcher w) = None
   \<or> fst (backgroundTaskHandler error dispatcher w) = Some error"
  by (simp add: backgroundTaskHandler_def Let_def split: option.split)

lemma gitAuthenticationErrorHandler_result:
  "fst (gitAuthenticationErrorHandler deps error dispatcher w) = Some error"
  by (simp add: gitAuthenticationErrorHandler_def Let_def split: option.split)

text \<open>
  On an error whose \<^verbatim>\<open>code\<close> is absent or a data property, the classifiers that run on
  error objects complete normally with the result of the classifiers on \<open>Error\<close>, the
  state untouched.
\<close>

lemma classifiers_js_agree:
  "asErrorWithCode_js (DataCode e) w = (Normal (map_option DataCode (asErrorWithCode e)), w)
   \<and> asErrorWithMetadata_js (DataCode e) w
       = (Normal (map_option DataCode (asErrorWithMetadata e)), w)
   \<and> asGitError_js (DataCode e) w = (Normal (map_option DataCode (asGitError e)), w)"
  by (simp add: asErrorWithCode_js_def asErrorWithMetadata_js_def asGitError_js_def
      asErrorWithCode_def asErrorWithMetadata_def asGitError_def)

section \<open>The default handler\<close>

text \<open>
  C4. For every input error, \<^verbatim>\<open>defaultErrorHandler\<close> resolves (returns \<^verbatim>\<open>null\<close>) and the
  state it leaves is that of one awaited \<^verbatim>\<open>presentError\<close> call on exactly the input error,
  whatever the dispatcher does; under the recording dispatcher the call log grows by that
  one call. There is no branch in which it propagates.
\<close>

theorem defaultErrorHandler_presents_once:
  "defaultErrorHandler error dispatcher w = (None, presentError dispatcher error w)
   \<and> defaultErrorHandler error recording_dispatcher cs = (None, cs @ [PresentError error])"
  by (simp add: defaultErrorHandler_def recording_dispatcher_def)

section \<open>The background-task handler\<close>

text \<open>
  C5. An \<^verbatim>\<open>ErrorWithMetadata\<close> whose metadata has \<^verbatim>\<open>backgroundTask\<close> true is resolved
  (\<^verbatim>\<open>null\<close>) and the state is left as it was, whatever the wrapped error is; an error that
  is not an \<^verbatim>\<open>ErrorWithMetadata\<close> is returned unchanged, the state left as it was.
\<close>

theorem backgroundTaskHandler_suppresses_background:
  "(instanceof_ErrorWithMetadata error \<and> backgroundTask (metadata error) = Some True
      \<longrightarrow> backgroundTaskHandler error dispatcher w = (None, w))
   \<and> (\<not> instanceof_ErrorWithMetadata error
      \<longrightarrow> backgroundTaskHandler error dispatcher w = (Some error, w))"
  by (simp add: backgroundTaskHandler_def asErrorWithMetadata_def)

text \<open>
  A background fetch that failed with an authentication error is suppressed with no call
  recorded; a plain error passes through.
\<close>

theorem backgroundTaskHandler_suppresses_background_witness:
  "backgroundTaskHandler
     (ErrorWithMetadata 2 ''fetch failed'' JUndefined
        (GitError 1 ''fetch failed'' JUndefined \<lparr>exitCode = 128, gitError = Some 3\<rparr>)
        \<lparr>backgroundTask = Some True\<rparr>)
     recording_dispatcher [] = (None, [])
   \<and> backgroundTaskHandler (PlainError 4 ''boom'' JUndefined) recording_dispatcher []
       = (Some (PlainError 4 ''boom'' JUndefined), [])"
  using backgroundTaskHandler_suppresses_background
      [of "ErrorWithMetadata 2 ''fetch failed'' JUndefined
        (GitError 1 ''fetch failed'' JUndefined \<lparr>exitCode = 128, gitError = Some 3\<rparr>)
        \<lparr>backgroundTask = Some True\<rparr>" recording_dispatcher "[]"]
    backgroundTaskHandler_suppresses_background
      [of "PlainError 4 ''boom'' JUndefined" recording_dispatcher "[]"]
  by simp

text \<open>
  The wrapper of a plain error, flagged \<^verbatim>\<open>backgroundTask: false\<close>: the handler returns the
  wrapper (object 2), which is not the wrapped error (object 1).
\<close>

theorem backgroundTaskHandler_unwrap_counterexample:
  "backgroundTask (metadata
     (ErrorWithMetadata 2 ''boom'' JUndefined (PlainError 1 ''boom'' JUndefined)
        \<lparr>backgroundTask = Some False\<rparr>)) = Some False
   \<and> fst (backgroundTaskHandler
     (ErrorWithMetadata 2 ''boom'' JUndefined (PlainError 1 ''boom'' JUndefined)
        \<lparr>backgroundTask = Some False\<rparr>)
     recording_dispatcher [])
   = Some (ErrorWithMetadata 2 ''boom'' JUndefined (PlainError 1 ''boom'' JUndefined)
        \<lparr>backgroundTask = Some False\<rparr>)
   \<and> fst (backgroundTaskHandler
     (ErrorWithMetadata 2 ''boom'' JUndefined (PlainError 1 ''boom'' JUndefined)
        \<lparr>backgroundTask = Some False\<rparr>)
     recording_dispatcher [])
   \<noteq> Some (underlyingError
     (ErrorWithMetadata 2 ''boom'' JUndefined (PlainError 1 ''boom'' JUndefined)
        \<lparr>backgroundTask = Some False\<rparr>))"
  by (simp add: backgroundTaskHandler_def asErrorWithMetadata_def)

text \<open>
  C1, as the code has it. An \<^verbatim>\<open>ErrorWithMetadata\<close> whose metadata has \<^verbatim>\<open>backgroundTask\<close>
  false or absent is propagated as it was received: the value returned is the metadata
  wrapper itself, which is never its own wrapped error, and the state is left as it was.
\<close>

theorem backgroundTaskHandler_propagates_wrapper:
  assumes "instanceof_ErrorWithMetadata error"
    and "backgroundTask (metadata error) = Some False \<or> backgroundTask (metadata error) = None"
  shows "backgroundTaskHandler error dispatcher w = (Some error, w)
         \<and> error \<noteq> underlyingError error"
proof -
  from assms(2) have "backgroundTask (metadata error) \<noteq> Some True" by auto
  with assms(1) have "backgroundTaskHandler error dispatcher w = (Some error, w)"
    by (simp add: backgroundTaskHandler_def asErrorWithMetadata_def)
  moreover from underlyingError_smaller [OF assms(1)] have "error \<noteq> underlyingError error"
    by auto
  ultimately show ?thesis by simp
qed

text \<open>The flag false, and the flag absent with an earlier call already in the log.\<close>

theorem backgroundTaskHandler_propagates_wrapper_witness:
  "backgroundTaskHandler
     (ErrorWithMetadata 2 ''boom'' JUndefined (PlainError 1 ''boom'' JUndefined)
        \<lparr>backgroundTask = Some False\<rparr>)
     recording_dispatcher []
   = (Some (ErrorWithMetadata 2 ''boom'' JUndefined (PlainError 1 ''boom'' JUndefined)
        \<lparr>backgroundTask = Some False\<rparr>), [])
   \<and> backgroundTaskHandler
     (ErrorWithMetadata 6 ''push failed'' JUndefined (PlainError 5 ''push failed'' JUndefined)
        \<lparr>backgroundTask = None\<rparr>)
     recording_dispatcher [PresentError (PlainError 0 ''earlier'' JUndefined)]
   = (Some (ErrorWithMetadata 6 ''push failed'' JUndefined
        (PlainError 5 ''push failed'' JUndefined) \<lparr>backgroundTask = None\<rparr>),
      [PresentError (PlainError 0 ''earlier'' JUndefined)])"
  using backgroundTaskHandler_propagates_wrapper
      [of "ErrorWithMetadata 2 ''boom'' JUndefined (PlainError 1 ''boom'' JUndefined)
        \<lparr>backgroundTask = Some False\<rparr>" recording_dispatcher "[]"]
    backgroundTaskHandler_propagates_wrapper
      [of "ErrorWithMetadata 6 ''push failed'' JUndefined
        (PlainError 5 ''push failed'' JUndefined) \<lparr>backgroundTask = None\<rparr>"
        recording_dispatcher "[PresentError (PlainError 0 ''earlier'' JUndefined)]"]
  by simp

section \<open>The authentication-error handler\<close>

text \<open>
  C3. \<^verbatim>\<open>gitAuthenticationErrorHandler\<close> never resolves: whatever the error is (a
  \<^verbatim>\<open>GitError\<close> or not, with a dugite error or none, an authentication error or another),
  the value returned is the input error, never \<^verbatim>\<open>null\<close>.
\<close>

theorem gitAuthenticationErrorHandler_never_resolves:
  "fst (gitAuthenticationErrorHandler deps error dispatcher w) = Some error
   \<and> fst (gitAuthenticationErrorHandler deps error dispatcher w) \<noteq> None"
  by (simp add: gitAuthenticationErrorHandler_def asGitError_def Let_def split: option.split)

section \<open>The missing-repository handler\<close>

text \<open>
  C2. When the current selection carries a tracked repository (kind \<^verbatim>\<open>Repository\<close>, or
  \<^verbatim>\<open>MissingRepository\<close>) that is not yet flagged missing, and the error is a \<^verbatim>\<open>GitError\<close>
  whose result carries \<^verbatim>\<open>NotAGitRepository\<close> or has a code equal to
  \<^verbatim>\<open>RepositoryDoesNotExistErrorCode\<close> (a non-empty string, as dugite's constant is), the
  handler resolves (\<^verbatim>\<open>null\<close>) and the state it leaves is that of one awaited
  \<^verbatim>\<open>updateRepositoryMissing\<close> call on the selected repository and \<^verbatim>\<open>true\<close>.
\<close>

theorem missing_repository_handler_marks_missing:
  assumes sel: "selectedState (getState appStore w) = Some sel"
    and kind: "type sel = Repository \<or> type sel = MissingRepository"
    and present: "\<not> missing (repository sel)"
    and const: "RepositoryDoesNotExistErrorCode deps \<noteq> []"
    and qual: "qualifies_as_missing deps error"
  shows "createMissingRepositoryHandler deps appStore error dispatcher w
         = (None, updateRepositoryMissing dispatcher (repository sel) True w)"
proof -
  from kind have guard: "\<not> (type sel \<noteq> MissingRepository \<and> type sel \<noteq> Repository)"
    by (rule tracked_selection_cases)
  from qualifies_imp_handler_missing [OF const qual]
  have m: "(case asGitError error of None \<Rightarrow> False
      | Some g \<Rightarrow> gitError (result g) = Some (NotAGitRepository deps))
    \<or> (case asErrorWithCode error of None \<Rightarrow> False
      | Some e \<Rightarrow> code e = JString (RepositoryDoesNotExistErrorCode deps))"
    by (simp only: handler_missing_value)
  show ?thesis
    unfolding createMissingRepositoryHandler_def Let_def
    using sel guard present m by simp
qed

text \<open>
  A coded error and a git error, each with a normal repository selected: the log of the
  recording dispatcher holds the one call.
\<close>

theorem missing_repository_handler_marks_missing_witness:
  "createMissingRepositoryHandler sample_dependencies
     (store_holding (Some (IRepositorySelection \<lparr>id = 7, path = ''/home/u/desktop'', missing = False\<rparr>)))
     (PlainError 1 ''not found'' (JString ''repository-does-not-exist-error''))
     recording_dispatcher []
   = (None, [UpdateRepositoryMissing \<lparr>id = 7, path = ''/home/u/desktop'', missing = False\<rparr> True])
   \<and> createMissingRepositoryHandler sample_dependencies
     (store_holding (Some (IRepositorySelection \<lparr>id = 7, path = ''/home/u/desktop'', missing = False\<rparr>)))
     (GitError 2 ''fatal'' JUndefined \<lparr>exitCode = 128, gitError = Some 27\<rparr>)
     recording_dispatcher []
   = (None, [UpdateRepositoryMissing \<lparr>id = 7, path = ''/home/u/desktop'', missing = False\<rparr> True])"
  using missing_repository_handler_marks_missing
      [of "store_holding (Some (IRepositorySelection
             \<lparr>id = 7, path = ''/home/u/desktop'', missing = False\<rparr>))" "[]"
          "IRepositorySelection \<lparr>id = 7, path = ''/home/u/desktop'', missing = False\<rparr>"
          sample_dependencies
          "PlainError 1 ''not found'' (JString ''repository-does-not-exist-error'')"
          recording_dispatcher]
    missing_repository_handler_marks_missing
      [of "store_holding (Some (IRepositorySelection
             \<lparr>id = 7, path = ''/home/u/desktop'', missing = False\<rparr>))" "[]"
          "IRepositorySelection \<lparr>id = 7, path = ''/home/u/desktop'', missing = False\<rparr>"
          sample_dependencies
          "GitError 2 ''fatal'' JUndefined \<lparr>exitCode = 128, gitError = Some 27\<rparr>"
          recording_dispatcher]
  by (simp add: store_holding_def sample_dependencies_def recording_dispatcher_def
      qualifies_as_missing_def)

text \<open>
  C6. When the current selection carries a repository already flagged missing, the handler
  resolves (\<^verbatim>\<open>null\<close>) at once: the state is left as it was, so no dispatcher call is made,
  and the outcome is the same for every error.
\<close>

theorem missing_repository_handler_already_missing:
  assumes sel: "selectedState (getState appStore w) = Some sel"
    and kind: "type sel = Repository \<or> type sel = MissingRepository"
    and gone: "missing (repository sel)"
  shows "createMissingRepositoryHandler deps appStore error dispatcher w = (None, w)"
proof -
  from kind have guard: "\<not> (type sel \<noteq> MissingRepository \<and> type sel \<noteq> Repository)"
    by (rule tracked_selection_cases)
  show ?thesis
    unfolding createMissingRepositoryHandler_def Let_def
    using sel guard gone by simp
qed

text \<open>The coded error of C2 with the selection already known missing: no call is logged.\<close>

theorem missing_repository_handler_already_missing_witness:
  "createMissingRepositoryHandler sample_dependencies
     (store_holding (Some (IMissingRepositorySelection \<lparr>id = 7, path = ''/home/u/desktop'', missing = True\<rparr>)))
     (PlainError 1 ''not found'' (JString ''repository-does-not-exist-error''))
     recording_dispatcher []
   = (None, [])"
  using missing_repository_handler_already_missing
      [of "store_holding (Some (IMissingRepositorySelection
             \<lparr>id = 7, path = ''/home/u/desktop'', missing = True\<rparr>))" "[]"
          "IMissingRepositorySelection \<lparr>id = 7, path = ''/home/u/desktop'', missing = True\<rparr>"
          sample_dependencies
          "PlainError 1 ''not found'' (JString ''repository-does-not-exist-error'')"
          recording_dispatcher]
  by (simp add: store_holding_def)

text \<open>
  C7. When there is no current selection, or its kind is neither \<^verbatim>\<open>Repository\<close> nor
  \<^verbatim>\<open>MissingRepository\<close>, or the selected repository is not missing and the error does not
  qualify as "resource now missing", the handler returns the input error and leaves the
  state as it was (no \<^verbatim>\<open>updateRepositoryMissing\<close> call).
\<close>

theorem missing_repository_handler_passes_through:
  assumes "selectedState (getState appStore w) = None
    \<or> (\<exists>sel. selectedState (getState appStore w) = Some sel
          \<and> type sel \<noteq> Repository \<and> type sel \<noteq> MissingRepository)
    \<or> (\<exists>sel. selectedState (getState appStore w) = Some sel
          \<and> (type sel = Repository \<or> type sel = MissingRepository)
          \<and> \<not> missing (repository sel) \<and> \<not> qualifies_as_missing deps error)"
  shows "createMissingRepositoryHandler deps appStore error dispatcher w = (Some error, w)"
proof -
  from assms consider
      (none) "selectedState (getState appStore w) = None"
    | (other) sel where "selectedState (getState appStore w) = Some sel"
        and "type sel \<noteq> Repository" and "type sel \<noteq> MissingRepository"
    | (unqualified) sel where "selectedState (getState appStore w) = Some sel"
        and "\<not> missing (repository sel)" and "\<not> qualifies_as_missing deps error"
    by fastforce
  then show ?thesis
  proof cases
    case none
    then show ?thesis
      by (simp add: createMissingRepositoryHandler_def)
  next
    case other
    then show ?thesis
      by (simp add: createMissingRepositoryHandler_def)
  next
    case unqualified
    from unqualified(3) handler_missing_imp_qualifies [of error deps]
    have m: "\<not> ((case asGitError error of None \<Rightarrow> False
        | Some g \<Rightarrow> gitError (result g) = Some (NotAGitRepository deps))
      \<or> (case asErrorWithCode error of None \<Rightarrow> False
        | Some e \<Rightarrow> code e = JString (RepositoryDoesNotExistErrorCode deps)))"
      by (simp only: handler_missing_value) blast
    show ?thesis
      unfolding createMissingRepositoryHandler_def Let_def
      using unqualified(1,2) m by simp
  qed
qed

text \<open>
  No selection; a repository being cloned; a normal repository with an authentication
  failure whose code is \<^verbatim>\<open>EACCES\<close>.
\<close>

theorem missing_repository_handler_passes_through_witness:
  "createMissingRepositoryHandler sample_dependencies (store_holding None)
     (PlainError 1 ''not found'' (JString ''repository-does-not-exist-error''))
     recording_dispatcher []
   = (Some (PlainError 1 ''not found'' (JString ''repository-does-not-exist-error'')), [])
   \<and> createMissingRepositoryHandler sample_dependencies
     (store_holding (Some (ICloningRepositorySelection \<lparr>cloning_id = 3, cloning_path = ''/tmp/clone''\<rparr>)))
     (PlainError 1 ''not found'' (JString ''repository-does-not-exist-error''))
     recording_dispatcher []
   = (Some (PlainError 1 ''not found'' (JString ''repository-does-not-exist-error'')), [])
   \<and> createMissingRepositoryHandler sample_dependencies
     (store_holding (Some (IRepositorySelection \<lparr>id = 7, path = ''/home/u/desktop'', missing = False\<rparr>)))
     (GitError 2 ''denied'' (JString ''EACCES'') \<lparr>exitCode = 128, gitError = Some 3\<rparr>)
     recording_dispatcher []
   = (Some (GitError 2 ''denied'' (JString ''EACCES'') \<lparr>exitCode = 128, gitError = Some 3\<rparr>), [])"
  using missing_repository_handler_passes_through
      [of "store_holding None" "[]" sample_dependencies
          "PlainError 1 ''not found'' (JString ''repository-does-not-exist-error'')"
          recording_dispatcher]
    missing_repository_handler_passes_through
      [of "store_holding (Some (ICloningRepositorySelection
             \<lparr>cloning_id = 3, cloning_path = ''/tmp/clone''\<rparr>))" "[]" sample_dependencies
          "PlainError 1 ''not found'' (JString ''repository-does-not-exist-error'')"
          recording_dispatcher]
    missing_repository_handler_passes_through
      [of "store_holding (Some (IRepositorySelection
             \<lparr>id = 7, path = ''/home/u/desktop'', missing = False\<rparr>))" "[]" sample_dependencies
          "GitError 2 ''denied'' (JString ''EACCES'') \<lparr>exitCode = 128, gitError = Some 3\<rparr>"
          recording_dispatcher]
  by (simp add: store_holding_def sample_dependencies_def qualifies_as_missing_def)

section \<open>The classifiers\<close>

text \<open>
  Two error objects on which \<^verbatim>\<open>asErrorWithCode\<close> does not answer \<^verbatim>\<open>null\<close>. The first has
  the boolean \<^verbatim>\<open>true\<close> as its \<^verbatim>\<open>code\<close>: it is not of the coded-error shape (its code is
  no string, so it is neither an \<^verbatim>\<open>IErrorWithCode\<close> nor an error with a non-empty string
  code), yet the classifier returns it. The second defines \<^verbatim>\<open>code\<close> by a getter that
  throws: the classifier throws what the getter throws.
\<close>

theorem classifiers_shape_counterexample:
  "\<not> is_IErrorWithCode (PlainError 1 ''aborted'' (JBool True))
   \<and> \<not> exposes_nonempty_string_code (PlainError 1 ''aborted'' (JBool True))
   \<and> asErrorWithCode_js (DataCode (PlainError 1 ''aborted'' (JBool True))) ([] :: call list)
       = (Normal (Some (DataCode (PlainError 1 ''aborted'' (JBool True)))), [])
   \<and> asErrorWithCode_js
        (AccessorCode (PlainError 2 ''trap'' JUndefined)
           (\<lambda>cs. (Throw (JString ''no code''), cs)))
        ([] :: call list)
       = (Throw (JString ''no code''), [])"
  by (simp add: is_IErrorWithCode_def exposes_nonempty_string_code_def asErrorWithCode_js_def)

text \<open>
  C8, as the code has it. On every error object \<^verbatim>\<open>asErrorWithMetadata\<close> and
  \<^verbatim>\<open>asGitError\<close> complete normally and leave the state as it was: they return the error
  itself when it is an instance of their class and \<^verbatim>\<open>null\<close> when it is not. So does
  \<^verbatim>\<open>asErrorWithCode\<close> on every error whose \<^verbatim>\<open>code\<close> is absent or a data property: it
  returns \<^verbatim>\<open>null\<close> when the code is falsy and the error itself when the code is truthy,
  whether or not that code is a string. When \<^verbatim>\<open>code\<close> is an accessor,
  \<^verbatim>\<open>asErrorWithCode\<close> runs the getter: it throws what the getter throws, and otherwise
  classifies the value the getter returns in the same way; the state it leaves is the one
  the getter leaves.
\<close>

theorem classifiers_total:
  "(instanceof_ErrorWithMetadata (the_error error)
      \<longrightarrow> asErrorWithMetadata_js error w = (Normal (Some error), w))
   \<and> (\<not> instanceof_ErrorWithMetadata (the_error error)
      \<longrightarrow> asErrorWithMetadata_js error w = (Normal None, w))
   \<and> (instanceof_GitError (the_error error)
      \<longrightarrow> asGitError_js error w = (Normal (Some error), w))
   \<and> (\<not> instanceof_GitError (the_error error)
      \<longrightarrow> asGitError_js error w = (Normal None, w))
   \<and> (truthy (code e)
      \<longrightarrow> asErrorWithCode_js (DataCode e) w = (Normal (Some (DataCode e)), w))
   \<and> (\<not> truthy (code e)
      \<longrightarrow> asErrorWithCode_js (DataCode e) w = (Normal None, w))
   \<and> (getter w = (Throw x, w')
      \<longrightarrow> asErrorWithCode_js (AccessorCode obj getter) w = (Throw x, w'))
   \<and> (getter w = (Normal v, w') \<and> truthy v
      \<longrightarrow> asErrorWithCode_js (AccessorCode obj getter) w
            = (Normal (Some (AccessorCode obj getter)), w'))
   \<and> (getter w = (Normal v, w') \<and> \<not> truthy v
      \<longrightarrow> asErrorWithCode_js (AccessorCode obj getter) w = (Normal None, w'))"
  by (simp add: asErrorWithCode_js_def asErrorWithMetadata_js_def asGitError_js_def)

text \<open>
  A plain error without a code, an instance of each class, an error whose code is the
  number 1, and three errors whose code is an accessor: a getter that logs and throws, one
  that returns \<^verbatim>\<open>ENOENT\<close>, one that returns \<^verbatim>\<open>undefined\<close>.
\<close>

theorem classifiers_total_witness:
  "asErrorWithMetadata_js (DataCode (PlainError 1 ''boom'' JUndefined)) ([] :: call list)
     = (Normal None, [])
   \<and> asGitError_js (DataCode (PlainError 1 ''boom'' JUndefined)) ([] :: call list)
     = (Normal None, [])
   \<and> asErrorWithCode_js (DataCode (PlainError 1 ''boom'' JUndefined)) ([] :: call list)
     = (Normal None, [])
   \<and> asErrorWithMetadata_js
        (DataCode (ErrorWithMetadata 3 ''boom'' JUndefined (PlainError 1 ''boom'' JUndefined)
           \<lparr>backgroundTask = None\<rparr>)) ([] :: call list)
     = (Normal (Some (DataCode (ErrorWithMetadata 3 ''boom'' JUndefined
           (PlainError 1 ''boom'' JUndefined) \<lparr>backgroundTask = None\<rparr>))), [])
   \<and> asGitError_js
        (DataCode (GitError 4 ''fatal'' JUndefined \<lparr>exitCode = 128, gitError = None\<rparr>))
        ([] :: call list)
     = (Normal (Some (DataCode (GitError 4 ''fatal'' JUndefined
           \<lparr>exitCode = 128, gitError = None\<rparr>))), [])
   \<and> asErrorWithCode_js (DataCode (PlainError 5 ''Command failed'' (JNumber 1)))
        ([] :: call list)
     = (Normal (Some (DataCode (PlainError 5 ''Command failed'' (JNumber 1)))), [])
   \<and> asErrorWithCode_js
        (AccessorCode (PlainError 2 ''trap'' JUndefined)
           (\<lambda>cs. (Throw (JString ''no code''), cs @ [ConsoleLog 0])))
        ([] :: call list)
     = (Throw (JString ''no code''), [ConsoleLog 0])
   \<and> asErrorWithCode_js
        (AccessorCode (PlainError 6 ''lazy'' JUndefined)
           (\<lambda>cs. (Normal (JString ''ENOENT''), cs)))
        ([] :: call list)
     = (Normal (Some (AccessorCode (PlainError 6 ''lazy'' JUndefined)
           (\<lambda>cs. (Normal (JString ''ENOENT''), cs)))), [])
   \<and> asErrorWithCode_js
        (AccessorCode (PlainError 7 ''lazy'' JUndefined)
           (\<lambda>cs. (Normal JUndefined, cs)))
        ([] :: call list)
     = (Normal None, [])"
  using classifiers_total
      [where error = "DataCode (PlainError 1 ''boom'' JUndefined)" and w = "[] :: call list"
         and e = "PlainError 1 ''boom'' JUndefined"
         and getter = "\<lambda>cs. (Throw (JString ''no code''), cs @ [ConsoleLog 0])"
         and x = "JString ''no code''" and w' = "[ConsoleLog 0]"
         and obj = "PlainError 2 ''trap'' JUndefined"]
    classifiers_total
      [where error = "DataCode (ErrorWithMetadata 3 ''boom'' JUndefined
           (PlainError 1 ''boom'' JUndefined) \<lparr>backgroundTask = None\<rparr>)"
         and w = "[] :: call list"
         and e = "PlainError 5 ''Command failed'' (JNumber 1)"
         and getter = "\<lambda>cs. (Normal (JString ''ENOENT''), cs)"
         and v = "JString ''ENOENT''" and w' = "[]"
         and obj = "PlainError 6 ''lazy'' JUndefined"]
    classifiers_total
      [where error = "DataCode (GitError 4 ''fatal'' JUndefined
           \<lparr>exitCode = 128, gitError = None\<rparr>)"
         and w = "[] :: call list"
         and e = "PlainError 1 ''boom'' JUndefined"
         and getter = "\<lambda>cs. (Normal JUndefined, cs)"
         and v = JUndefined and w' = "[]"
         and obj = "PlainError 7 ''lazy'' JUndefined"]
  by simp

text \<open>
  An error whose \<^verbatim>\<open>code\<close> is the number 128 (the exit code Node puts on the error of a
  failed child process) exposes no string code, yet \<^verbatim>\<open>asErrorWithCode\<close> does not return
  \<^verbatim>\<open>null\<close> for it.
\<close>

theorem asErrorWithCode_nonstring_counterexample:
  "\<not> exposes_nonempty_string_code (PlainError 1 ''Command failed'' (JNumber 128))
   \<and> asErrorWithCode (PlainError 1 ''Command failed'' (JNumber 128)) \<noteq> None"
  by (simp add: exposes_nonempty_string_code_def asErrorWithCode_def)

text \<open>
  C9, as the code has it. \<^verbatim>\<open>asErrorWithCode\<close> returns the input error exactly when its
  \<^verbatim>\<open>code\<close> is truthy, and \<^verbatim>\<open>null\<close> exactly when it is not; in particular it returns the
  error whenever the error exposes a non-empty string code.
\<close>

theorem asErrorWithCode_truthy_code:
  "(asErrorWithCode error = Some error) = truthy (code error)
   \<and> (asErrorWithCode error = None) = (\<not> truthy (code error))
   \<and> (exposes_nonempty_string_code error \<longrightarrow> asErrorWithCode error = Some error)"
  by (auto simp: asErrorWithCode_def exposes_nonempty_string_code_def split: js_value.splits)

text \<open>The code \<^verbatim>\<open>ENOENT\<close>, and the empty string as a code.\<close>

theorem asErrorWithCode_truthy_code_witness:
  "asErrorWithCode (PlainError 1 ''spawn git ENOENT'' (JString ''ENOENT''))
     = Some (PlainError 1 ''spawn git ENOENT'' (JString ''ENOENT''))
   \<and> asErrorWithCode (PlainError 2 ''boom'' (JString [])) = None"
  using asErrorWithCode_truthy_code [of "PlainError 1 ''spawn git ENOENT'' (JString ''ENOENT'')"]
    asErrorWithCode_truthy_code [of "PlainError 2 ''boom'' (JString [])"]
  by (simp add: exposes_nonempty_string_code_def)

section \<open>Propagation\<close>

text \<open>
  C10. Whenever the handler made by \<^verbatim>\<open>createMissingRepositoryHandler\<close>,
  \<^verbatim>\<open>backgroundTaskHandler\<close> or \<^verbatim>\<open>gitAuthenticationErrorHandler\<close> propagates, the error it
  returns is the error it received (the same object: errors carry their address); none
  of them constructs a replacement.
\<close>

theorem propagate_returns_input:
  "(fst (createMissingRepositoryHandler deps appStore error dispatcher w) = Some e'
      \<longrightarrow> e' = error)
   \<and> (fst (backgroundTaskHandler error dispatcher w) = Some e' \<longrightarrow> e' = error)
   \<and> (fst (gitAuthenticationErrorHandler deps error dispatcher w) = Some e' \<longrightarrow> e' = error)"
  using createMissingRepositoryHandler_result [of deps appStore error dispatcher w]
    backgroundTaskHandler_result [of error dispatcher w]
    gitAuthenticationErrorHandler_result [of deps error dispatcher w]
  by auto

text \<open>
  One propagating run of each handler: no selection, a wrapper flagged
  \<^verbatim>\<open>backgroundTask: false\<close>, and an authentication failure.
\<close>

theorem propagate_returns_input_witness:
  "fst (createMissingRepositoryHandler sample_dependencies (store_holding None)
          (PlainError 1 ''boom'' JUndefined) recording_dispatcher [])
     = Some (PlainError 1 ''boom'' JUndefined)
   \<and> fst (backgroundTaskHandler
          (ErrorWithMetadata 2 ''boom'' JUndefined (PlainError 1 ''boom'' JUndefined)
             \<lparr>backgroundTask = Some False\<rparr>) recording_dispatcher [])
     = Some (ErrorWithMetadata 2 ''boom'' JUndefined (PlainError 1 ''boom'' JUndefined)
             \<lparr>backgroundTask = Some False\<rparr>)
   \<and> fst (gitAuthenticationErrorHandler sample_dependencies
          (GitError 3 ''denied'' JUndefined \<lparr>exitCode = 128, gitError = Some 3\<rparr>)
          recording_dispatcher [])
     = Some (GitError 3 ''denied'' JUndefined \<lparr>exitCode = 128, gitError = Some 3\<rparr>)"
proof -
  let ?A = "fst (createMissingRepositoryHandler sample_dependencies (store_holding None)
          (PlainError 1 ''boom'' JUndefined) recording_dispatcher [])"
  let ?B = "fst (backgroundTaskHandler
          (ErrorWithMetadata 2 ''boom'' JUndefined (PlainError 1 ''boom'' JUndefined)
             \<lparr>backgroundTask = Some False\<rparr>) recording_dispatcher [])"
  let ?C = "fst (gitAuthenticationErrorHandler sample_dependencies
          (GitError 3 ''denied'' JUndefined \<lparr>exitCode = 128, gitError = Some 3\<rparr>)
          recording_dispatcher [])"
  have "?A \<noteq> None"
    by (simp add: createMissingRepositoryHandler_def store_holding_def)
  then obtain a where a: "?A = Some a" by auto
  have "?B \<noteq> None"
    by (simp add: backgroundTaskHandler_def asErrorWithMetadata_def)
  then obtain b where b: "?B = Some b" by auto
  have "?C \<noteq> None"
    by (simp add: gitAuthenticationErrorHandler_def asGitError_def sample_dependencies_def)
  then obtain c where c: "?C = Some c" by auto
  from a propagate_returns_input [of sample_dependencies "store_holding None"
      "PlainError 1 ''boom'' JUndefined" recording_dispatcher "[]" a]
  have "?A = Some (PlainError 1 ''boom'' JUndefined)" by simp
  moreover from b propagate_returns_input [of _ _ "ErrorWithMetadata 2 ''boom'' JUndefined
      (PlainError 1 ''boom'' JUndefined) \<lparr>backgroundTask = Some False\<rparr>"
      recording_dispatcher "[]" b]
  have "?B = Some (ErrorWithMetadata 2 ''boom'' JUndefined (PlainError 1 ''boom'' JUndefined)
             \<lparr>backgroundTask = Some False\<rparr>)" by simp
  moreover from c propagate_returns_input [of sample_dependencies _
      "GitError 3 ''denied'' JUndefined \<lparr>exitCode = 128, gitError = Some 3\<rparr>"
      recording_dispatcher "[]" c]
  have "?C = Some (GitError 3 ''denied'' JUndefined \<lparr>exitCode = 128, gitError = Some 3\<rparr>)"
    by simp
  ultimately show ?thesis by simp
qed

end
